theory Spec2Isabelle
  imports Complex_Main
begin

section \<open>Data model (src/src/contexts/DrawingContext.tsx)\<close>

text \<open>
  JavaScript numbers are modelled as real numbers: coordinates, sizes and stroke widths
  are \<^typ>\<open>real\<close>, so rounding of IEEE doubles is idealised away.  The history cursor only
  ever holds the values produced by \<open>0\<close>, \<open>+ 1\<close> and a guarded \<open>- 1\<close>, and is a \<^typ>\<open>nat\<close>.
  An optional property of an element is an \<open>option\<close>: \<open>None\<close> is JavaScript's
  \<open>undefined\<close>.
\<close>

datatype Tool =
  T_select | T_pen | T_rectangle | T_circle | T_triangle | T_diamond | T_hexagon | T_star
  | T_arrow
  | T_text | T_image | T_eraser | T_fill

record Point =
  pt_x :: real
  pt_y :: real

text \<open>An \<open>HTMLImageElement\<close>, as far as the program reads it: its pixel size and source.\<close>

record HTMLImageElement =
  img_width :: nat
  img_height :: nat
  img_src :: string

record DrawingElement =
  el_id :: string
  el_type :: Tool
  el_x :: real
  el_y :: real
  el_width :: "real option"
  el_height :: "real option"
  el_points :: "Point list option"
  el_text :: "string option"
  el_fontSize :: "real option"
  el_fontFamily :: "string option"
  el_imageData :: "string option"
  el_imageElement :: "HTMLImageElement option"
  el_color :: string
  el_strokeWidth :: real
  el_fillColor :: "string option"
  el_filled :: "bool option"
  el_erased :: "bool option"

text \<open>
  \<open>Partial<DrawingElement>\<close>: every key may be absent (\<open>None\<close>).  A key that is present
  carries a value; for an optional property that value may itself be \<open>undefined\<close>.
\<close>

record Updates =
  u_id :: "string option"
  u_type :: "Tool option"
  u_x :: "real option"
  u_y :: "real option"
  u_width :: "real option option"
  u_height :: "real option option"
  u_points :: "Point list option option"
  u_text :: "string option option"
  u_fontSize :: "real option option"
  u_fontFamily :: "string option option"
  u_imageData :: "string option option"
  u_imageElement :: "HTMLImageElement option option"
  u_color :: "string option"
  u_strokeWidth :: "real option"
  u_fillColor :: "string option option"
  u_filled :: "bool option option"
  u_erased :: "bool option option"

definition no_updates :: Updates where
  "no_updates = \<lparr> u_id = None, u_type = None, u_x = None, u_y = None, u_width = None,
     u_height = None, u_points = None, u_text = None, u_fontSize = None,
     u_fontFamily = None, u_imageData = None, u_imageElement = None, u_color = None,
     u_strokeWidth = None, u_fillColor = None, u_filled = None, u_erased = None \<rparr>"

text \<open>One key of the object spread \<open>{ ...el, ...updates }\<close>: a present key wins.\<close>

definition spread_key :: "'a \<Rightarrow> 'a option \<Rightarrow> 'a" where
  "spread_key old upd = (case upd of None \<Rightarrow> old | Some v \<Rightarrow> v)"

definition spread :: "DrawingElement \<Rightarrow> Updates \<Rightarrow> DrawingElement" where
  "spread el updates = \<lparr>
     el_id = spread_key (el_id el) (u_id updates),
     el_type = spread_key (el_type el) (u_type updates),
     el_x = spread_key (el_x el) (u_x updates),
     el_y = spread_key (el_y el) (u_y updates),
     el_width = spread_key (el_width el) (u_width updates),
     el_height = spread_key (el_height el) (u_height updates),
     el_points = spread_key (el_points el) (u_points updates),
     el_text = spread_key (el_text el) (u_text updates),
     el_fontSize = spread_key (el_fontSize el) (u_fontSize updates),
     el_fontFamily = spread_key (el_fontFamily el) (u_fontFamily updates),
     el_imageData = spread_key (el_imageData el) (u_imageData updates),
     el_imageElement = spread_key (el_imageElement el) (u_imageElement updates),
     el_color = spread_key (el_color el) (u_color updates),
     el_strokeWidth = spread_key (el_strokeWidth el) (u_strokeWidth updates),
     el_fillColor = spread_key (el_fillColor el) (u_fillColor updates),
     el_filled = spread_key (el_filled el) (u_filled updates),
     el_erased = spread_key (el_erased el) (u_erased updates) \<rparr>"

section \<open>The drawing provider: element list and history\<close>

text \<open>
  The state held by \<open>DrawingProvider\<close>.  Each operation below is one call of the
  corresponding callback.  The callbacks read \<open>historyIndex\<close> from their closure and
  increment the cursor through an updater; the model takes the call to be made after the
  component has re-rendered, so that the captured \<open>historyIndex\<close> is the current one, and
  takes each state updater to run once.  Every event handler of the program calls at most
  one of the callbacks.
\<close>

record DrawingState =
  currentTool :: Tool
  elements :: "DrawingElement list"
  history :: "DrawingElement list list"
  historyIndex :: nat
  selectedElement :: "string option"
  currentColor :: string
  currentFillColor :: string
  isFilled :: bool
  currentStrokeWidth :: real

definition initialState :: DrawingState where
  "initialState = \<lparr> currentTool = T_select, elements = [], history = [[]],
     historyIndex = 0, selectedElement = None, currentColor = ''#000000'',
     currentFillColor = ''#ffffff'', isFilled = False, currentStrokeWidth = 2 \<rparr>"

text \<open>\<open>prevHistory.slice(0, historyIndex + 1)\<close> followed by \<open>push(newElements)\<close>.\<close>

definition pushHistory ::
  "DrawingElement list \<Rightarrow> DrawingState \<Rightarrow> DrawingElement list list" where
  "pushHistory newElements s = take (historyIndex s + 1) (history s) @ [newElements]"

definition addElement :: "DrawingElement \<Rightarrow> DrawingState \<Rightarrow> DrawingState" where
  "addElement element s =
     (let newElements = elements s @ [element]
      in s\<lparr> elements := newElements,
            history := pushHistory newElements s,
            historyIndex := historyIndex s + 1 \<rparr>)"

definition updateElement :: "string \<Rightarrow> Updates \<Rightarrow> DrawingState \<Rightarrow> DrawingState" where
  "updateElement ident updates s =
     (let newElements = map (\<lambda>el. if el_id el = ident then spread el updates else el) (elements s)
      in s\<lparr> elements := newElements,
            history := pushHistory newElements s,
            historyIndex := historyIndex s + 1 \<rparr>)"

definition deleteElement :: "string \<Rightarrow> DrawingState \<Rightarrow> DrawingState" where
  "deleteElement ident s =
     (let newElements = filter (\<lambda>el. el_id el \<noteq> ident) (elements s)
      in s\<lparr> elements := newElements,
            history := pushHistory newElements s,
            historyIndex := historyIndex s + 1,
            selectedElement := None \<rparr>)"

text \<open>
  Reading a JavaScript array: an index outside the array yields \<open>undefined\<close>.
\<close>

definition array_get :: "'a list \<Rightarrow> int \<Rightarrow> 'a option" where
  "array_get xs i = (if 0 \<le> i \<and> i < int (length xs) then Some (xs ! nat i) else None)"

text \<open>
  \<open>undo\<close> and \<open>redo\<close> store \<open>history[historyIndex \<plusminus> 1]\<close> as the element list.  Where that
  read is outside the array the element list would become \<open>undefined\<close>, which is not a
  list: the model reports it as an error value.
\<close>

datatype error = ElementsUndefined

definition undo :: "DrawingState \<Rightarrow> error + DrawingState" where
  "undo s =
     (if historyIndex s > 0 then
        (case array_get (history s) (int (historyIndex s) - 1) of
           None \<Rightarrow> Inl ElementsUndefined
         | Some snapshot \<Rightarrow>
             Inr (s\<lparr> historyIndex := historyIndex s - 1, elements := snapshot \<rparr>))
      else Inr s)"

definition redo :: "DrawingState \<Rightarrow> error + DrawingState" where
  "redo s =
     (if int (historyIndex s) < int (length (history s)) - 1 then
        (case array_get (history s) (int (historyIndex s) + 1) of
           None \<Rightarrow> Inl ElementsUndefined
         | Some snapshot \<Rightarrow>
             Inr (s\<lparr> historyIndex := historyIndex s + 1, elements := snapshot \<rparr>))
      else Inr s)"



text \<open>
  \<open>uploadImage\<close>, from the point where the file has been read (\<open>dataUrl\<close>) and the image
  decoded (\<open>img\<close>): the element built in \<open>img.onload\<close>, and its insertion.  \<open>now\<close> is the
  value of \<open>Date.now()\<close>.
\<close>

fun toString :: "nat \<Rightarrow> string" where
  "toString n =
     (if n < 10 then [char_of (48 + n)]
      else toString (n div 10) @ [char_of (48 + n mod 10)])"

declare toString.simps [simp del]

definition uploadImage_element ::
  "nat \<Rightarrow> HTMLImageElement \<Rightarrow> string \<Rightarrow> DrawingState \<Rightarrow> DrawingElement" where
  "uploadImage_element now img dataUrl s = \<lparr>
     el_id = toString now,
     el_type = T_image,
     el_x = 100,
     el_y = 100,
     el_width = Some (if img_width img > 300 then 300 else real (img_width img)),
     el_height = Some (if img_height img > 300 then 300 else real (img_height img)),
     el_points = None,
     el_text = None,
     el_fontSize = None,
     el_fontFamily = None,
     el_imageData = Some dataUrl,
     el_imageElement = Some img,
     el_color = currentColor s,
     el_strokeWidth = currentStrokeWidth s,
     el_fillColor = None,
     el_filled = None,
     el_erased = None \<rparr>"

definition uploadImage ::
  "nat \<Rightarrow> HTMLImageElement \<Rightarrow> string \<Rightarrow> DrawingState \<Rightarrow> DrawingState" where
  "uploadImage now img dataUrl s = addElement (uploadImage_element now img dataUrl s) s"

text \<open>Sequences of operations, run from the initial state.\<close>

datatype operation =
  AddElement DrawingElement
  | UpdateElement string Updates
  | DeleteElement string
  | Undo
  | Redo

fun step :: "DrawingState \<Rightarrow> operation \<Rightarrow> error + DrawingState" where
  "step s (AddElement element) = Inr (addElement element s)"
| "step s (UpdateElement ident updates) = Inr (updateElement ident updates s)"
| "step s (DeleteElement ident) = Inr (deleteElement ident s)"
| "step s Undo = undo s"
| "step s Redo = redo s"

fun run_from :: "DrawingState \<Rightarrow> operation list \<Rightarrow> error + DrawingState" where
  "run_from s [] = Inr s"
| "run_from s (operation # rest) =
     (case step s operation of Inl e \<Rightarrow> Inl e | Inr s' \<Rightarrow> run_from s' rest)"

definition run :: "operation list \<Rightarrow> error + DrawingState" where
  "run operations = run_from initialState operations"

section \<open>The canvas (components/Canvas.tsx)\<close>

subsection \<open>JavaScript truthiness and the Math library\<close>

text \<open>
  \<open>a || d\<close> on an optional number: \<open>undefined\<close> and \<open>0\<close> are falsy.  A string is truthy when
  it is defined and not empty, a flag when it is \<open>true\<close>.
\<close>

definition truthy_num :: "real option \<Rightarrow> bool" where
  "truthy_num a = (case a of None \<Rightarrow> False | Some v \<Rightarrow> v \<noteq> 0)"

definition truthy_str :: "string option \<Rightarrow> bool" where
  "truthy_str a = (case a of None \<Rightarrow> False | Some v \<Rightarrow> v \<noteq> [])"

definition truthy_bool :: "bool option \<Rightarrow> bool" where
  "truthy_bool a = (case a of None \<Rightarrow> False | Some v \<Rightarrow> v)"

definition num_or :: "real option \<Rightarrow> real \<Rightarrow> real" where
  "num_or a d = (case a of None \<Rightarrow> d | Some v \<Rightarrow> if v = 0 then d else v)"

definition str_or :: "string option \<Rightarrow> string \<Rightarrow> string" where
  "str_or a d = (case a of None \<Rightarrow> d | Some v \<Rightarrow> if v = [] then d else v)"

text \<open>
  \<open>Math.max(...xs)\<close> and \<open>Math.min(...xs)\<close>.  On an empty list they are \<open>-Infinity\<close> and
  \<open>Infinity\<close>, which no real number is: the result is \<open>None\<close> there.
\<close>

definition Math_max :: "real list \<Rightarrow> real option" where
  "Math_max xs = (case xs of [] \<Rightarrow> None | v # rest \<Rightarrow> Some (fold max rest v))"

definition Math_min :: "real list \<Rightarrow> real option" where
  "Math_min xs = (case xs of [] \<Rightarrow> None | v # rest \<Rightarrow> Some (fold min rest v))"

text \<open>\<open>Math.atan2(y, x)\<close> on real arguments.\<close>

definition Math_atan2 :: "real \<Rightarrow> real \<Rightarrow> real" where
  "Math_atan2 y x =
     (if x > 0 then arctan (y / x)
      else if x < 0 then (if y \<ge> 0 then arctan (y / x) + pi else arctan (y / x) - pi)
      else if y > 0 then pi / 2
      else if y < 0 then - (pi / 2)
      else 0)"

text \<open>\<open>text.split('\n')\<close>: the lines of a string; never an empty list.\<close>

fun split_newline :: "string \<Rightarrow> string list" where
  "split_newline [] = [[]]"
| "split_newline (c # cs) =
     (if c = CHR 0x0A then [] # split_newline cs
      else (case split_newline cs of
              [] \<Rightarrow> [[c]]
            | line # lines \<Rightarrow> (c # line) # lines))"

subsection \<open>The 2D context\<close>

text \<open>
  The canvas is written through calls on its 2D context; a drawing routine is modelled by
  the list of calls it makes, in order.  A font is the pair of the pixel size and the
  family from which the program builds the CSS font string.  The one query made on the
  context, \<open>measureText(line).width\<close> under the font set just before, is a function of the
  font and the line, and stands for the context itself.  The rectangle calls of the canvas
  API do nothing when an argument is not finite, so a call with such an argument is not
  recorded.
\<close>

type_synonym Font = "real \<times> string"

type_synonym Context2D = "Font \<Rightarrow> string \<Rightarrow> real"

datatype command =
  ClearRect real real real real
  | SetStrokeStyle string
  | SetLineWidth real
  | SetLineCap string
  | SetLineJoin string
  | SetFillStyle string
  | SetFont Font
  | SetTextBaseline string
  | SetLineDash "real list"
  | SetGlobalCompositeOperation string
  | BeginPath
  | MoveTo real real
  | LineTo real real
  | ClosePath
  | Arc real real real real real
  | Stroke
  | FillPath
  | FillRect real real real real
  | StrokeRect real real real real
  | FillText string real real
  | DrawImage HTMLImageElement real real real real

text \<open>The canvas DOM element: its size, its context (if any) and its bounding rectangle.\<close>

record HTMLCanvasElement =
  canvas_width :: real
  canvas_height :: real
  getContext :: "Context2D option"
  rect_left :: real
  rect_top :: real

subsection \<open>drawElement\<close>

text \<open>\<open>element.filled && element.fillColor\<close>, and the colour when it holds.\<close>

definition fillColor_if_filled :: "DrawingElement \<Rightarrow> string option" where
  "fillColor_if_filled element =
     (if truthy_bool (el_filled element) \<and> truthy_str (el_fillColor element)
      then el_fillColor element else None)"

definition fill_if_filled :: "DrawingElement \<Rightarrow> command list" where
  "fill_if_filled element =
     (case fillColor_if_filled element of None \<Rightarrow> [] | Some c \<Rightarrow> [FillPath])"

text \<open>A closed path through \<open>n\<close> computed corners: \<open>moveTo\<close> the first, \<open>lineTo\<close> the others.\<close>

definition corners :: "nat \<Rightarrow> (nat \<Rightarrow> real \<times> real) \<Rightarrow> command list" where
  "corners n corner =
     map (\<lambda>i. if i = 0 then MoveTo (fst (corner i)) (snd (corner i))
              else LineTo (fst (corner i)) (snd (corner i))) [0..<n]"

definition arrowHead :: "real \<Rightarrow> real \<Rightarrow> real \<Rightarrow> command list" where
  "arrowHead endX endY angle =
     (let headlen = 15 in
      [BeginPath,
       MoveTo endX endY,
       LineTo (endX - headlen * cos (angle - pi / 6)) (endY - headlen * sin (angle - pi / 6)),
       MoveTo endX endY,
       LineTo (endX - headlen * cos (angle + pi / 6)) (endY - headlen * sin (angle + pi / 6)),
       Stroke])"

definition selectionDash :: "string \<Rightarrow> real \<Rightarrow> real list \<Rightarrow> command list" where
  "selectionDash style lineWidth dash =
     [SetStrokeStyle style, SetLineWidth lineWidth, SetLineDash dash]"

text \<open>\<open>strokeRect\<close> where an argument may be infinite.\<close>

definition strokeRect_opt ::
  "real option \<Rightarrow> real option \<Rightarrow> real option \<Rightarrow> real option \<Rightarrow> command list" where
  "strokeRect_opt x y w h =
     (case (x, y, w, h) of
        (Some x', Some y', Some w', Some h') \<Rightarrow> [StrokeRect x' y' w' h']
      | _ \<Rightarrow> [])"

text \<open>The \<open>switch (element.type)\<close> of \<open>drawElement\<close>.\<close>

definition drawShape :: "string option \<Rightarrow> Context2D \<Rightarrow> DrawingElement \<Rightarrow> command list" where
  "drawShape selected ctx element =
     (let x = el_x element; y = el_y element;
          w = num_or (el_width element) 0; h = num_or (el_height element) 0
      in case el_type element of
        T_pen \<Rightarrow>
          (case el_points element of
             Some (p0 # p1 # ps) \<Rightarrow>
               [BeginPath, MoveTo (pt_x p0) (pt_y p0)]
               @ map (\<lambda>p. LineTo (pt_x p) (pt_y p)) (p1 # ps) @ [Stroke]
           | _ \<Rightarrow> [])
      | T_rectangle \<Rightarrow>
          (case fillColor_if_filled element of None \<Rightarrow> [] | Some c \<Rightarrow> [FillRect x y w h])
          @ [StrokeRect x y w h]
      | T_circle \<Rightarrow>
          (let radius = min \<bar>w\<bar> \<bar>h\<bar> / 2 in
           [BeginPath, Arc (x + w / 2) (y + h / 2) radius 0 (2 * pi)]
           @ fill_if_filled element @ [Stroke])
      | T_triangle \<Rightarrow>
          (let centerX = x + w / 2; centerY = y + h / 2; size = min \<bar>w\<bar> \<bar>h\<bar> / 2 in
           [BeginPath,
            MoveTo centerX (centerY - size),
            LineTo (centerX - size) (centerY + size),
            LineTo (centerX + size) (centerY + size),
            ClosePath]
           @ fill_if_filled element @ [Stroke])
      | T_diamond \<Rightarrow>
          (let diamondCenterX = x + w / 2; diamondCenterY = y + h / 2;
               diamondWidth = \<bar>w\<bar> / 2; diamondHeight = \<bar>h\<bar> / 2 in
           [BeginPath,
            MoveTo diamondCenterX (diamondCenterY - diamondHeight),
            LineTo (diamondCenterX + diamondWidth) diamondCenterY,
            LineTo diamondCenterX (diamondCenterY + diamondHeight),
            LineTo (diamondCenterX - diamondWidth) diamondCenterY,
            ClosePath]
           @ fill_if_filled element @ [Stroke])
      | T_hexagon \<Rightarrow>
          (let hexCenterX = x + w / 2; hexCenterY = y + h / 2;
               hexRadius = min \<bar>w\<bar> \<bar>h\<bar> / 2 in
           [BeginPath]
           @ corners 6 (\<lambda>i. let angle = real i * pi / 3 in
                (hexCenterX + hexRadius * cos angle, hexCenterY + hexRadius * sin angle))
           @ [ClosePath] @ fill_if_filled element @ [Stroke])
      | T_star \<Rightarrow>
          (let starCenterX = x + w / 2; starCenterY = y + h / 2;
               starRadius = min \<bar>w\<bar> \<bar>h\<bar> / 2; innerRadius = starRadius * 0.4 in
           [BeginPath]
           @ corners 10 (\<lambda>i. let angle = real i * pi / 5;
                                 radius = (if i mod 2 = 0 then starRadius else innerRadius) in
                (starCenterX + radius * cos (angle - pi / 2),
                 starCenterY + radius * sin (angle - pi / 2)))
           @ [ClosePath] @ fill_if_filled element @ [Stroke])
      | T_arrow \<Rightarrow>
          (case (el_width element, el_height element) of
             (Some width, Some height) \<Rightarrow>
               if width \<noteq> 0 \<and> height \<noteq> 0 then
                 (let endX = x + width; endY = y + height in
                  [BeginPath, MoveTo x y, LineTo endX endY, Stroke]
                  @ arrowHead endX endY (Math_atan2 height width))
               else []
           | _ \<Rightarrow> [])
      | T_image \<Rightarrow>
          (case (el_imageElement element, el_width element, el_height element) of
             (Some img, Some width, Some height) \<Rightarrow>
               if width \<noteq> 0 \<and> height \<noteq> 0 then
                 [DrawImage img x y width height]
                 @ (if selected = Some (el_id element) then
                      selectionDash ''#2563eb'' 2 [5, 5]
                      @ [StrokeRect x y width height, SetLineDash []]
                    else [])
               else []
           | _ \<Rightarrow> [])
      | T_text \<Rightarrow>
          (case el_text element of
             None \<Rightarrow> []
           | Some text \<Rightarrow>
               if text = [] then []
               else
                 (let font = (num_or (el_fontSize element) 16,
                              str_or (el_fontFamily element) ''Arial'');
                      lines = split_newline text;
                      lineHeight = num_or (el_fontSize element) 16 * 1.2 in
                  [SetFillStyle (el_color element), SetFont font, SetTextBaseline ''top'']
                  @ map (\<lambda>(index, line). FillText line x (y + real index * lineHeight))
                      (enumerate 0 lines)
                  @ (if selected = Some (el_id element) then
                       (let textWidth = Math_max (map (ctx font) lines);
                            textHeight = real (length lines) * lineHeight in
                        selectionDash ''#2563eb'' 1 [3, 3]
                        @ strokeRect_opt (Some (x - 2)) (Some (y - 2))
                            (map_option (\<lambda>tw. tw + 4) textWidth) (Some (textHeight + 4))
                        @ [SetLineDash []])
                     else [])))
      | _ \<Rightarrow> [])"

text \<open>The selection frame drawn after the \<open>switch\<close>.\<close>

definition drawSelection :: "string option \<Rightarrow> DrawingElement \<Rightarrow> command list" where
  "drawSelection selected element =
     (if selected = Some (el_id element) \<and> el_type element \<noteq> T_image then
        selectionDash ''#2563eb'' 2 [5, 5]
        @ (case (el_type element, el_points element) of
             (T_pen, Some points) \<Rightarrow>
               (let xs = map pt_x points; ys = map pt_y points;
                    minX = Math_min xs; maxX = Math_max xs;
                    minY = Math_min ys; maxY = Math_max ys in
                case (minX, maxX, minY, maxY) of
                  (Some minX', Some maxX', Some minY', Some maxY') \<Rightarrow>
                    [StrokeRect (minX' - 5) (minY' - 5) (maxX' - minX' + 10) (maxY' - minY' + 10)]
                | _ \<Rightarrow> [])
           | _ \<Rightarrow>
               (case (el_width element, el_height element) of
                  (Some width, Some height) \<Rightarrow>
                    if width \<noteq> 0 \<and> height \<noteq> 0
                    then [StrokeRect (el_x element) (el_y element) width height] else []
                | _ \<Rightarrow> []))
        @ [SetLineDash []]
      else [])"

definition drawElement :: "string option \<Rightarrow> Context2D \<Rightarrow> DrawingElement \<Rightarrow> command list" where
  "drawElement selected ctx element =
     (if truthy_bool (el_erased element) then []
      else
        [SetStrokeStyle (el_color element),
         SetLineWidth (el_strokeWidth element),
         SetLineCap ''round'',
         SetLineJoin ''round'']
        @ (case fillColor_if_filled element of None \<Rightarrow> [] | Some c \<Rightarrow> [SetFillStyle c])
        @ drawShape selected ctx element
        @ drawSelection selected element)"

subsection \<open>redrawCanvas\<close>

text \<open>
  The state of the \<open>Canvas\<close> component that \<open>redrawCanvas\<close> reads, next to what it takes
  from the drawing provider.
\<close>

record CanvasState =
  isDrawing :: bool
  startPoint :: "Point option"
  currentPath :: "Point list"
  isDragging :: bool

text \<open>The stroke being drawn with the pen or the eraser.\<close>

definition previewPath :: "DrawingState \<Rightarrow> CanvasState \<Rightarrow> command list" where
  "previewPath s c =
     (if isDrawing c \<and> (currentTool s = T_pen \<or> currentTool s = T_eraser)
         \<and> length (currentPath c) > 1 then
        (case currentPath c of
           [] \<Rightarrow> []
         | p0 # ps \<Rightarrow>
             [SetStrokeStyle (currentColor s),
              SetLineWidth (currentStrokeWidth s),
              SetLineCap ''round'',
              SetLineJoin ''round'']
             @ (if currentTool s = T_eraser then
                  [SetGlobalCompositeOperation ''destination-out'',
                   SetStrokeStyle ''rgba(0,0,0,1)'',
                   SetLineWidth (currentStrokeWidth s * 2)]
                else [])
             @ [BeginPath, MoveTo (pt_x p0) (pt_y p0)]
             @ map (\<lambda>point. LineTo (pt_x point) (pt_y point)) (currentPath c)
             @ [Stroke]
             @ (if currentTool s = T_eraser
                then [SetGlobalCompositeOperation ''source-over''] else []))
      else [])"

definition fill_if :: "bool \<Rightarrow> command list" where
  "fill_if b = (if b then [FillPath] else [])"

text \<open>
  The shape being dragged out.  \<open>windowEvent\<close> is the \<open>clientX\<close> and \<open>clientY\<close> of
  \<open>window.event\<close>, \<open>None\<close> when there is no such event or it has no such properties; the
  subtraction is then \<open>NaN\<close> and \<open>|| 0\<close> makes it \<open>0\<close>.
\<close>

definition previewShape ::
  "HTMLCanvasElement \<Rightarrow> (real \<times> real) option \<Rightarrow> DrawingState \<Rightarrow> CanvasState \<Rightarrow> command list"
  where
  "previewShape canvas windowEvent s c =
     (case startPoint c of
        None \<Rightarrow> []
      | Some start \<Rightarrow>
          if isDrawing c \<and> currentTool s \<noteq> T_pen \<and> currentTool s \<noteq> T_select
             \<and> currentTool s \<noteq> T_eraser \<and> currentTool s \<noteq> T_text then
            (let currentX = (case windowEvent of None \<Rightarrow> 0
                             | Some (clientX, clientY) \<Rightarrow> clientX - rect_left canvas);
                 currentY = (case windowEvent of None \<Rightarrow> 0
                             | Some (clientX, clientY) \<Rightarrow> clientY - rect_top canvas);
                 sx = pt_x start; sy = pt_y start;
                 width = currentX - sx; height = currentY - sy
             in
               [SetStrokeStyle (currentColor s),
                SetLineWidth (currentStrokeWidth s),
                SetLineCap ''round'',
                SetLineJoin ''round'']
               @ (if isFilled s then [SetFillStyle (currentFillColor s)] else [])
               @ (case currentTool s of
                    T_rectangle \<Rightarrow>
                      (if isFilled s then [FillRect sx sy width height] else [])
                      @ [StrokeRect sx sy width height]
                  | T_circle \<Rightarrow>
                      (let radius = sqrt (width * width + height * height) / 2 in
                       [BeginPath, Arc (sx + width / 2) (sy + height / 2) \<bar>radius\<bar> 0 (2 * pi)]
                       @ fill_if (isFilled s) @ [Stroke])
                  | T_triangle \<Rightarrow>
                      (let centerX = sx + width / 2; centerY = sy + height / 2;
                           size = min \<bar>width\<bar> \<bar>height\<bar> / 2 in
                       [BeginPath,
                        MoveTo centerX (centerY - size),
                        LineTo (centerX - size) (centerY + size),
                        LineTo (centerX + size) (centerY + size),
                        ClosePath]
                       @ fill_if (isFilled s) @ [Stroke])
                  | T_diamond \<Rightarrow>
                      (let diamondCenterX = sx + width / 2; diamondCenterY = sy + height / 2;
                           diamondWidth = \<bar>width\<bar> / 2; diamondHeight = \<bar>height\<bar> / 2 in
                       [BeginPath,
                        MoveTo diamondCenterX (diamondCenterY - diamondHeight),
                        LineTo (diamondCenterX + diamondWidth) diamondCenterY,
                        LineTo diamondCenterX (diamondCenterY + diamondHeight),
                        LineTo (diamondCenterX - diamondWidth) diamondCenterY,
                        ClosePath]
                       @ fill_if (isFilled s) @ [Stroke])
                  | T_hexagon \<Rightarrow>
                      (let hexCenterX = sx + width / 2; hexCenterY = sy + height / 2;
                           hexRadius = min \<bar>width\<bar> \<bar>height\<bar> / 2 in
                       [BeginPath]
                       @ corners 6 (\<lambda>i. let angle = real i * pi / 3 in
                            (hexCenterX + hexRadius * cos angle,
                             hexCenterY + hexRadius * sin angle))
                       @ [ClosePath] @ fill_if (isFilled s) @ [Stroke])
                  | T_star \<Rightarrow>
                      (let starCenterX = sx + width / 2; starCenterY = sy + height / 2;
                           starRadius = min \<bar>width\<bar> \<bar>height\<bar> / 2;
                           innerRadius = starRadius * 0.4 in
                       [BeginPath]
                       @ corners 10 (\<lambda>i. let angle = real i * pi / 5;
                                 radius = (if i mod 2 = 0 then starRadius else innerRadius) in
                            (starCenterX + radius * cos (angle - pi / 2),
                             starCenterY + radius * sin (angle - pi / 2)))
                       @ [ClosePath] @ fill_if (isFilled s) @ [Stroke])
                  | T_arrow \<Rightarrow>
                      [BeginPath, MoveTo sx sy, LineTo currentX currentY, Stroke]
                      @ arrowHead currentX currentY (Math_atan2 height width)
                  | _ \<Rightarrow> []))
          else [])"

text \<open>
  \<open>redrawCanvas\<close>: nothing without a canvas or without a context; otherwise the canvas is
  cleared, every element is drawn, and the gesture in progress is drawn on top.
\<close>

definition redrawCanvas ::
  "HTMLCanvasElement option \<Rightarrow> (real \<times> real) option \<Rightarrow> DrawingState \<Rightarrow> CanvasState
     \<Rightarrow> command list" where
  "redrawCanvas canvasRef windowEvent s c =
     (case canvasRef of
        None \<Rightarrow> []
      | Some canvas \<Rightarrow>
          (case getContext canvas of
             None \<Rightarrow> []
           | Some ctx \<Rightarrow>
               [ClearRect 0 0 (canvas_width canvas) (canvas_height canvas)]
               @ concat (map (drawElement (selectedElement s) ctx) (elements s))
               @ previewPath s c
               @ previewShape canvas windowEvent s c))"

subsection \<open>Hit-testing and the eraser\<close>

text \<open>
  The body of the loop of \<open>getElementAtPosition\<close> for one element: does it return the
  element (\<open>True\<close>) or go on to the next one (\<open>False\<close>)?
\<close>

definition hitTest ::
  "HTMLCanvasElement option \<Rightarrow> real \<Rightarrow> real \<Rightarrow> DrawingElement \<Rightarrow> bool" where
  "hitTest canvasRef x y element =
     (if truthy_bool (el_erased element) then False
      else if el_type element = T_text \<and> truthy_str (el_text element) then
        (case (canvasRef, el_text element) of
           (Some canvas, Some text) \<Rightarrow>
             (case getContext canvas of
                None \<Rightarrow> False
              | Some ctx \<Rightarrow>
                  (let font = (num_or (el_fontSize element) 16,
                               str_or (el_fontFamily element) ''Arial'');
                       lines = split_newline text;
                       lineHeight = num_or (el_fontSize element) 16 * 1.2;
                       textHeight = real (length lines) * lineHeight
                   in case Math_max (map (ctx font) lines) of
                        None \<Rightarrow> False
                      | Some textWidth \<Rightarrow>
                          x \<ge> el_x element \<and> x \<le> el_x element + textWidth
                          \<and> y \<ge> el_y element \<and> y \<le> el_y element + textHeight))
         | _ \<Rightarrow> False)
      else if el_type element = T_pen \<and> el_points element \<noteq> None then
        (case el_points element of
           None \<Rightarrow> False
         | Some points \<Rightarrow>
             list_ex (\<lambda>point. sqrt ((x - pt_x point)\<^sup>2 + (y - pt_y point)\<^sup>2) < 10) points)
      else
        (case (el_width element, el_height element) of
           (Some width, Some height) \<Rightarrow>
             width \<noteq> 0 \<and> height \<noteq> 0
             \<and> x \<ge> el_x element \<and> x \<le> el_x element + width
             \<and> y \<ge> el_y element \<and> y \<le> el_y element + height
         | _ \<Rightarrow> False))"

text \<open>
  The loop \<open>for (let i = elements.length - 1; i >= 0; i--)\<close>: \<open>scanFrom n\<close> is the loop
  with \<open>n\<close> elements still to visit, the next index being \<open>n - 1\<close>.
\<close>

fun scanFrom ::
  "HTMLCanvasElement option \<Rightarrow> DrawingElement list \<Rightarrow> real \<Rightarrow> real \<Rightarrow> nat
     \<Rightarrow> DrawingElement option" where
  "scanFrom canvasRef els x y 0 = None"
| "scanFrom canvasRef els x y (Suc i) =
     (let element = els ! i
      in if hitTest canvasRef x y element then Some element
         else scanFrom canvasRef els x y i)"

definition getElementAtPosition ::
  "HTMLCanvasElement option \<Rightarrow> DrawingElement list \<Rightarrow> real \<Rightarrow> real \<Rightarrow> DrawingElement option"
  where
  "getElementAtPosition canvasRef els x y = scanFrom canvasRef els x y (length els)"

definition eraseAtPosition ::
  "HTMLCanvasElement option \<Rightarrow> real \<Rightarrow> real \<Rightarrow> DrawingState \<Rightarrow> DrawingState" where
  "eraseAtPosition canvasRef x y s =
     (case getElementAtPosition canvasRef (elements s) x y of
        None \<Rightarrow> s
      | Some element \<Rightarrow>
          updateElement (el_id element) (no_updates\<lparr> u_erased := Some (Some True) \<rparr>) s)"

subsection \<open>handleMouseUp\<close>

text \<open>
  The element created when a drawing gesture ends.  \<open>now\<close> is the value of \<open>Date.now()\<close>,
  \<open>coords\<close> the canvas coordinates of the event.
\<close>

definition mouseUp_element ::
  "nat \<Rightarrow> Point \<Rightarrow> Point \<Rightarrow> DrawingState \<Rightarrow> CanvasState \<Rightarrow> DrawingElement" where
  "mouseUp_element now start coords s c = \<lparr>
     el_id = toString now,
     el_type = currentTool s,
     el_x = pt_x start,
     el_y = pt_y start,
     el_width = Some (pt_x coords - pt_x start),
     el_height = Some (pt_y coords - pt_y start),
     el_points = (if currentTool s = T_pen then Some (currentPath c) else None),
     el_text = None,
     el_fontSize = None,
     el_fontFamily = None,
     el_imageData = None,
     el_imageElement = None,
     el_color = currentColor s,
     el_strokeWidth = currentStrokeWidth s,
     el_fillColor = (if isFilled s then Some (currentFillColor s) else None),
     el_filled = Some (isFilled s),
     el_erased = None \<rparr>"

definition handleMouseUp ::
  "nat \<Rightarrow> Point \<Rightarrow> DrawingState \<times> CanvasState \<Rightarrow> DrawingState \<times> CanvasState" where
  "handleMouseUp now coords sc =
     (let s = fst sc; c = snd sc in
      if isDragging c then (s, c\<lparr> isDragging := False \<rparr>)
      else if \<not> isDrawing c then (s, c)
      else
        (case startPoint c of
           None \<Rightarrow> (s, c)
         | Some start \<Rightarrow>
             ((if currentTool s \<noteq> T_eraser
               then addElement (mouseUp_element now start coords s c) s else s),
              c\<lparr> isDrawing := False, startPoint := None, currentPath := [] \<rparr>)))"

subsection \<open>Distance to a polyline\<close>

text \<open>
  The geometric notion the specification names, written out for comparison with the code:
  the squared distance from a point to the segment between \<open>a\<close> and \<open>b\<close> (the distance to
  the nearest point of the segment), and whether a point is within distance \<open>d\<close> of the
  polyline through a list of points.
\<close>

definition segment_dist_sq :: "real \<times> real \<Rightarrow> Point \<Rightarrow> Point \<Rightarrow> real" where
  "segment_dist_sq q a b =
     (let dx = pt_x b - pt_x a; dy = pt_y b - pt_y a; len_sq = dx\<^sup>2 + dy\<^sup>2;
          t = (if len_sq = 0 then 0
               else max 0 (min 1 (((fst q - pt_x a) * dx + (snd q - pt_y a) * dy) / len_sq)))
      in (fst q - (pt_x a + t * dx))\<^sup>2 + (snd q - (pt_y a + t * dy))\<^sup>2)"

fun near_polyline :: "real \<Rightarrow> real \<times> real \<Rightarrow> Point list \<Rightarrow> bool" where
  "near_polyline d q [] = False"
| "near_polyline d q [a] = (segment_dist_sq q a a \<le> d\<^sup>2)"
| "near_polyline d q (a # b # rest) =
     (segment_dist_sq q a b \<le> d\<^sup>2 \<or> near_polyline d q (b # rest))"

text \<open>Whether a point is strictly within distance \<open>d\<close> of one of the listed points.\<close>

definition near_vertex :: "real \<Rightarrow> real \<times> real \<Rightarrow> Point list \<Rightarrow> bool" where
  "near_vertex d q points =
     list_ex (\<lambda>point. sqrt ((fst q - pt_x point)\<^sup>2 + (snd q - pt_y point)\<^sup>2) < d) points"

section \<open>Invariants and auxiliary notions used in the statements\<close>

text \<open>
  The cursor indexes a snapshot, and that snapshot is the live element list.
\<close>

definition history_inv :: "DrawingState \<Rightarrow> bool" where
  "history_inv s =
     (historyIndex s < length (history s) \<and> history s ! historyIndex s = elements s)"

text \<open>The identifiers handed to \<open>addElement\<close> by a sequence of operations, in order.\<close>

fun added_ids :: "operation list \<Rightarrow> string list" where
  "added_ids [] = []"
| "added_ids (AddElement element # rest) = el_id element # added_ids rest"
| "added_ids (operation # rest) = added_ids rest"

text \<open>An operation that leaves the identifier of every element as it is.\<close>

fun keeps_id :: "operation \<Rightarrow> bool" where
  "keeps_id (UpdateElement ident updates) = (u_id updates = None \<or> u_id updates = Some ident)"
| "keeps_id operation = True"


text \<open>
  Every snapshot carries pairwise distinct identifiers, all drawn from the set \<open>A\<close> of
  identifiers handed out so far.
\<close>

definition ids_inv :: "string set \<Rightarrow> DrawingState \<Rightarrow> bool" where
  "ids_inv A s =
     (\<forall>snapshot\<in>set (history s).
        distinct (map el_id snapshot) \<and> set (map el_id snapshot) \<subseteq> A)"

text \<open>
  Sample elements, as \<open>handleMouseUp\<close> creates them from the initial settings: a rectangle
  dragged from \<open>(x, y)\<close> over \<open>w\<close> by \<open>h\<close> pixels, and a pen stroke through the given
  points.
\<close>

definition sample_rectangle :: "nat \<Rightarrow> real \<Rightarrow> real \<Rightarrow> real \<Rightarrow> real \<Rightarrow> DrawingElement" where
  "sample_rectangle now x y w h =
     mouseUp_element now \<lparr> pt_x = x, pt_y = y \<rparr> \<lparr> pt_x = x + w, pt_y = y + h \<rparr>
       (initialState\<lparr> currentTool := T_rectangle \<rparr>)
       \<lparr> isDrawing = True, startPoint = Some \<lparr> pt_x = x, pt_y = y \<rparr>, currentPath = [],
         isDragging = False \<rparr>"

definition sample_stroke :: "nat \<Rightarrow> Point \<Rightarrow> Point list \<Rightarrow> DrawingElement" where
  "sample_stroke now start moves =
     mouseUp_element now start (last (start # moves))
       (initialState\<lparr> currentTool := T_pen \<rparr>)
       \<lparr> isDrawing = True, startPoint = Some start, currentPath = start # moves,
         isDragging = False \<rparr>"

text \<open>
  A sample image element, as \<open>uploadImage\<close> creates it from the initial settings for a
  picture of 640 by 200 pixels: it lies at \<open>(100, 100)\<close> and is 300 by 200 pixels large.
\<close>

definition sample_image :: "nat \<Rightarrow> DrawingElement" where
  "sample_image now =
     uploadImage_element now
       \<lparr> img_width = 640, img_height = 200, img_src = ''data:image/png;base64,'' \<rparr>
       ''data:image/png;base64,'' initialState"

text \<open>A sample canvas of 800 by 600 pixels whose context measures half the font size per character.\<close>

definition sample_canvas :: HTMLCanvasElement where
  "sample_canvas = \<lparr> canvas_width = 800, canvas_height = 600,
     getContext = Some (\<lambda>font line. fst font * real (length line) / 2),
     rect_left = 0, rect_top = 0 \<rparr>"

section \<open>addElement and uploadImage\<close>

text \<open>
  C6: \<open>addElement\<close> appends.  The new list is the old list followed by the new element, so
  every previously stored element is still there, unchanged and at its old index.
\<close>

theorem addElement_appends:
  "elements (addElement element s) = elements s @ [element]
   \<and> take (length (elements s)) (elements (addElement element s)) = elements s
   \<and> length (elements (addElement element s)) = length (elements s) + 1
   \<and> last (elements (addElement element s)) = element"
  by (simp add: addElement_def Let_def)

text \<open>
  C10: the element created by \<open>uploadImage\<close> sits at \<open>(100, 100)\<close>; its width is the
  image's width capped at 300, its height the image's height capped at 300; and it is the
  element that \<open>uploadImage\<close> appends to the list.
\<close>

theorem uploadImage_position_and_size:
  "el_x (uploadImage_element now img dataUrl s) = 100
   \<and> el_y (uploadImage_element now img dataUrl s) = 100
   \<and> el_width (uploadImage_element now img dataUrl s) = Some (real (min (img_width img) 300))
   \<and> el_height (uploadImage_element now img dataUrl s) = Some (real (min (img_height img) 300))
   \<and> el_type (uploadImage_element now img dataUrl s) = T_image
   \<and> elements (uploadImage now img dataUrl s)
       = elements s @ [uploadImage_element now img dataUrl s]"
  by (simp add: uploadImage_element_def uploadImage_def addElement_def Let_def min_def)

section \<open>The history invariant\<close>


lemma history_inv_initialState: "history_inv initialState"
  by (simp add: history_inv_def initialState_def)

lemma pushHistory_length:
  "historyIndex s < length (history s) \<Longrightarrow> length (pushHistory new s) = historyIndex s + 2"
  by (simp add: pushHistory_def)

lemma pushHistory_last:
  "historyIndex s < length (history s) \<Longrightarrow> pushHistory new s ! Suc (historyIndex s) = new"
  by (simp add: pushHistory_def nth_append)

lemma history_inv_addElement:
  "historyIndex s < length (history s) \<Longrightarrow> history_inv (addElement element s)"
  by (simp add: history_inv_def addElement_def Let_def pushHistory_length pushHistory_last)

lemma history_inv_updateElement:
  "historyIndex s < length (history s) \<Longrightarrow> history_inv (updateElement ident updates s)"
  by (simp add: history_inv_def updateElement_def Let_def pushHistory_length pushHistory_last)

lemma history_inv_deleteElement:
  "historyIndex s < length (history s) \<Longrightarrow> history_inv (deleteElement ident s)"
  by (simp add: history_inv_def deleteElement_def Let_def pushHistory_length pushHistory_last)

lemma undo_in_range:
  "0 < historyIndex s \<Longrightarrow> historyIndex s \<le> length (history s) \<Longrightarrow>
   undo s = Inr (s\<lparr> historyIndex := historyIndex s - 1,
                    elements := history s ! (historyIndex s - 1) \<rparr>)"
  by (auto simp add: undo_def array_get_def nat_diff_distrib' split: option.splits)

lemma redo_enabled:
  "historyIndex s + 1 < length (history s) \<Longrightarrow>
   redo s = Inr (s\<lparr> historyIndex := historyIndex s + 1,
                    elements := history s ! (historyIndex s + 1) \<rparr>)"
  by (auto simp add: redo_def array_get_def nat_add_distrib split: option.splits)

lemma undo_disabled: "historyIndex s = 0 \<Longrightarrow> undo s = Inr s"
  by (simp add: undo_def)

lemma redo_disabled: "\<not> historyIndex s + 1 < length (history s) \<Longrightarrow> redo s = Inr s"
  by (auto simp add: redo_def)

lemma history_inv_undo:
  "history_inv s \<Longrightarrow> \<exists>s'. undo s = Inr s' \<and> history_inv s'"
  by (cases "historyIndex s = 0") (auto simp add: undo_disabled undo_in_range history_inv_def)

lemma history_inv_redo:
  "history_inv s \<Longrightarrow> \<exists>s'. redo s = Inr s' \<and> history_inv s'"
  by (cases "historyIndex s + 1 < length (history s)")
    (auto simp add: redo_disabled redo_enabled history_inv_def)

lemma history_inv_step:
  assumes "history_inv s"
  shows "\<exists>s'. step s operation = Inr s' \<and> history_inv s'"
proof -
  have range: "historyIndex s < length (history s)"
    using assms by (simp add: history_inv_def)
  show ?thesis
  proof (cases operation)
    case (AddElement element)
    then show ?thesis by (simp add: history_inv_addElement [OF range])
  next
    case (UpdateElement ident updates)
    then show ?thesis by (simp add: history_inv_updateElement [OF range])
  next
    case (DeleteElement ident)
    then show ?thesis by (simp add: history_inv_deleteElement [OF range])
  next
    case Undo
    then show ?thesis using assms by (simp add: history_inv_undo)
  next
    case Redo
    then show ?thesis using assms by (simp add: history_inv_redo)
  qed
qed



section \<open>Undo and redo\<close>





section \<open>The cursor after a mutation\<close>







section \<open>Identifiers\<close>

lemma ids_inv_mono: "ids_inv A s \<Longrightarrow> A \<subseteq> B \<Longrightarrow> ids_inv B s"
  by (auto simp add: ids_inv_def)

lemma ids_inv_elements:
  assumes "history_inv s" "ids_inv A s"
  shows "distinct (map el_id (elements s)) \<and> set (map el_id (elements s)) \<subseteq> A"
proof -
  from assms(1) have "elements s \<in> set (history s)"
    by (metis history_inv_def nth_mem)
  with assms(2) show ?thesis by (simp add: ids_inv_def)
qed

lemma ids_inv_pushHistory:
  assumes "ids_inv A s" "distinct (map el_id new)" "set (map el_id new) \<subseteq> A"
  shows "\<forall>snapshot\<in>set (pushHistory new s).
           distinct (map el_id snapshot) \<and> set (map el_id snapshot) \<subseteq> A"
proof
  fix snapshot assume "snapshot \<in> set (pushHistory new s)"
  then have "snapshot = new \<or> snapshot \<in> set (history s)"
    by (auto simp add: pushHistory_def dest: in_set_takeD)
  with assms show "distinct (map el_id snapshot) \<and> set (map el_id snapshot) \<subseteq> A"
    by (auto simp add: ids_inv_def)
qed

lemma ids_inv_addElement:
  assumes "history_inv s" "ids_inv A s" "el_id element \<notin> A"
  shows "ids_inv (insert (el_id element) A) (addElement element s)"
proof -
  from ids_inv_elements [OF assms(1,2)] assms(3)
  have new: "distinct (map el_id (elements s @ [element]))"
    "set (map el_id (elements s @ [element])) \<subseteq> insert (el_id element) A"
    by auto
  have "ids_inv (insert (el_id element) A) s"
    using assms(2) by (rule ids_inv_mono) auto
  from ids_inv_pushHistory [OF this new] show ?thesis
    by (simp add: ids_inv_def addElement_def Let_def)
qed

lemma spread_keeps_id:
  "u_id updates = None \<or> u_id updates = Some ident \<Longrightarrow>
   map el_id (map (\<lambda>el. if el_id el = ident then spread el updates else el) els) = map el_id els"
  by (auto simp add: spread_def spread_key_def)

lemma ids_inv_updateElement:
  assumes "history_inv s" "ids_inv A s" "u_id updates = None \<or> u_id updates = Some ident"
  shows "ids_inv A (updateElement ident updates s)"
proof -
  let ?new = "map (\<lambda>el. if el_id el = ident then spread el updates else el) (elements s)"
  have same: "map el_id ?new = map el_id (elements s)"
    by (rule spread_keeps_id [OF assms(3)])
  have "distinct (map el_id ?new)" "set (map el_id ?new) \<subseteq> A"
    unfolding same using ids_inv_elements [OF assms(1,2)] by blast+
  from ids_inv_pushHistory [OF assms(2) this] show ?thesis
    by (simp add: ids_inv_def updateElement_def Let_def)
qed

lemma ids_inv_deleteElement:
  assumes "history_inv s" "ids_inv A s"
  shows "ids_inv A (deleteElement ident s)"
proof -
  let ?new = "filter (\<lambda>el. el_id el \<noteq> ident) (elements s)"
  from ids_inv_elements [OF assms]
  have "distinct (map el_id ?new)" "set (map el_id ?new) \<subseteq> A"
    by (auto simp add: distinct_map_filter)
  from ids_inv_pushHistory [OF assms(2) this] show ?thesis
    by (simp add: ids_inv_def deleteElement_def Let_def)
qed

lemma undo_history: "undo s = Inr s' \<Longrightarrow> history s' = history s"
  by (auto simp add: undo_def split: if_splits option.splits)

lemma redo_history: "redo s = Inr s' \<Longrightarrow> history s' = history s"
  by (auto simp add: redo_def split: if_splits option.splits)

lemma ids_inv_step:
  assumes "history_inv s" "ids_inv A s" "keeps_id operation"
    and "set (added_ids [operation]) \<inter> A = {}"
  shows "\<exists>s'. step s operation = Inr s' \<and> history_inv s'
           \<and> ids_inv (A \<union> set (added_ids [operation])) s'"
proof -
  from history_inv_step [OF assms(1), of operation] obtain s'
    where s': "step s operation = Inr s'" "history_inv s'" by blast
  have "ids_inv (A \<union> set (added_ids [operation])) s'"
  proof (cases operation)
    case (AddElement element)
    with assms(4) have "el_id element \<notin> A" by simp
    from ids_inv_addElement [OF assms(1,2) this] AddElement s'(1) show ?thesis by simp
  next
    case (UpdateElement ident updates)
    with assms(3) have "u_id updates = None \<or> u_id updates = Some ident" by simp
    from ids_inv_updateElement [OF assms(1,2) this] UpdateElement s'(1) show ?thesis by simp
  next
    case (DeleteElement ident)
    with ids_inv_deleteElement [OF assms(1,2), of ident] s'(1) show ?thesis by simp
  next
    case Undo
    with s'(1) have "history s' = history s" by (simp add: undo_history)
    with assms(2) Undo show ?thesis by (simp add: ids_inv_def)
  next
    case Redo
    with s'(1) have "history s' = history s" by (simp add: redo_history)
    with assms(2) Redo show ?thesis by (simp add: ids_inv_def)
  qed
  with s' show ?thesis by blast
qed

lemma added_ids_Cons:
  "added_ids (operation # rest) = added_ids [operation] @ added_ids rest"
  by (cases operation) simp_all

lemma ids_inv_run_from:
  assumes "history_inv s" "ids_inv A s" "\<forall>operation\<in>set operations. keeps_id operation"
    and "distinct (added_ids operations)" "set (added_ids operations) \<inter> A = {}"
  shows "\<exists>s' B. run_from s operations = Inr s' \<and> history_inv s' \<and> ids_inv B s'"
  using assms
proof (induction operations arbitrary: s A)
  case Nil
  then show ?case by auto
next
  case (Cons operation rest)
  have split: "added_ids (operation # rest) = added_ids [operation] @ added_ids rest"
    by (rule added_ids_Cons)
  from Cons.prems(3) have k: "keeps_id operation" "\<forall>operation\<in>set rest. keeps_id operation"
    by simp_all
  from Cons.prems(5) split have "set (added_ids [operation]) \<inter> A = {}" by auto
  from ids_inv_step [OF Cons.prems(1,2) k(1) this] obtain s1
    where s1: "step s operation = Inr s1" "history_inv s1"
      "ids_inv (A \<union> set (added_ids [operation])) s1" by blast
  from Cons.prems(4,5) split
  have "distinct (added_ids rest)"
    "set (added_ids rest) \<inter> (A \<union> set (added_ids [operation])) = {}"
    by auto
  from Cons.IH [OF s1(2,3) k(2) this] s1(1) show ?case by simp
qed

lemma ids_inv_initialState: "ids_inv {} initialState"
  by (simp add: ids_inv_def initialState_def)

text \<open>
  C3 as stated fails: \<open>addElement\<close> stores whatever identifier it is given, and the
  identifier of a new element is the clock reading in milliseconds.  An image whose
  loading completes in the millisecond in which a rectangle is finished shares its
  identifier with the rectangle.
\<close>

theorem identifiers_repeat_counterexample:
  "run [AddElement (sample_image 1), AddElement (sample_rectangle 1 0 0 50 50)]
     = Inr (addElement (sample_rectangle 1 0 0 50 50) (addElement (sample_image 1) initialState))
   \<and> sample_image 1 \<noteq> sample_rectangle 1 0 0 50 50
   \<and> map el_id (elements (addElement (sample_rectangle 1 0 0 50 50)
        (addElement (sample_image 1) initialState))) = [toString 1, toString 1]
   \<and> \<not> distinct (map el_id (elements (addElement (sample_rectangle 1 0 0 50 50)
        (addElement (sample_image 1) initialState))))"
  by (simp add: run_def addElement_def Let_def sample_rectangle_def sample_image_def
      uploadImage_element_def mouseUp_element_def initialState_def)

text \<open>
  C3, amended: when the identifiers of the elements handed to \<open>addElement\<close> are pairwise
  distinct and no update changes an identifier, every sequence of \<open>addElement\<close>,
  \<open>updateElement\<close>, \<open>deleteElement\<close>, \<open>undo\<close> and \<open>redo\<close> from the initial state ends in a
  state whose live list carries pairwise distinct identifiers.
\<close>

theorem identifiers_distinct_when_fresh:
  assumes "distinct (added_ids operations)"
    and "\<forall>operation\<in>set operations. keeps_id operation"
  shows "\<exists>s. run operations = Inr s \<and> distinct (map el_id (elements s))"
proof -
  from ids_inv_run_from [OF history_inv_initialState ids_inv_initialState assms(2,1)]
  obtain s B where "run operations = Inr s" "history_inv s" "ids_inv B s"
    by (auto simp add: run_def)
  with ids_inv_elements [of s B] show ?thesis by blast
qed

lemma toString_digit: "n < 10 \<Longrightarrow> toString n = [char_of (48 + n)]"
  by (simp add: toString.simps)

theorem identifiers_distinct_when_fresh_witness:
  "distinct (added_ids [AddElement (sample_rectangle 1 0 0 50 50),
                        AddElement (sample_rectangle 2 60 60 20 20),
                        UpdateElement ''1'' (no_updates\<lparr> u_erased := Some (Some True) \<rparr>),
                        Undo, DeleteElement ''2'', Redo])
   \<and> list_all keeps_id [AddElement (sample_rectangle 1 0 0 50 50),
                        AddElement (sample_rectangle 2 60 60 20 20),
                        UpdateElement ''1'' (no_updates\<lparr> u_erased := Some (Some True) \<rparr>),
                        Undo, DeleteElement ''2'', Redo]
   \<and> (\<exists>s. run [AddElement (sample_rectangle 1 0 0 50 50),
                        AddElement (sample_rectangle 2 60 60 20 20),
                        UpdateElement ''1'' (no_updates\<lparr> u_erased := Some (Some True) \<rparr>),
                        Undo, DeleteElement ''2'', Redo] = Inr s
          \<and> distinct (map el_id (elements s)))"
proof -
  let ?ops = "[AddElement (sample_rectangle 1 0 0 50 50),
                        AddElement (sample_rectangle 2 60 60 20 20),
                        UpdateElement ''1'' (no_updates\<lparr> u_erased := Some (Some True) \<rparr>),
                        Undo, DeleteElement ''2'', Redo]"
  have d: "distinct (added_ids ?ops)"
    by (simp add: sample_rectangle_def mouseUp_element_def toString_digit)
  have k: "\<forall>operation\<in>set ?ops. keeps_id operation"
    by (simp add: no_updates_def)
  from identifiers_distinct_when_fresh [OF d k] d k show ?thesis
    unfolding list_all_iff by blast
qed

section \<open>Hit-testing\<close>

lemma hitTest_erased: "truthy_bool (el_erased element) \<Longrightarrow> \<not> hitTest canvasRef x y element"
  by (simp add: hitTest_def)

lemma scanFrom_None:
  "scanFrom canvasRef els x y n = None \<longleftrightarrow> (\<forall>i<n. \<not> hitTest canvasRef x y (els ! i))"
  by (induction n) (auto simp add: Let_def less_Suc_eq)

lemma scanFrom_Some:
  "scanFrom canvasRef els x y n = Some element \<longleftrightarrow>
   (\<exists>i<n. els ! i = element \<and> hitTest canvasRef x y element
      \<and> (\<forall>j. i < j \<and> j < n \<longrightarrow> \<not> hitTest canvasRef x y (els ! j)))"
proof (induction n)
  case 0
  then show ?case by simp
next
  case (Suc n)
  show ?case
  proof (cases "hitTest canvasRef x y (els ! n)")
    case True
    have "(\<exists>i<Suc n. els ! i = element \<and> hitTest canvasRef x y element
      \<and> (\<forall>j. i < j \<and> j < Suc n \<longrightarrow> \<not> hitTest canvasRef x y (els ! j))) \<longleftrightarrow> els ! n = element"
    proof
      assume "\<exists>i<Suc n. els ! i = element \<and> hitTest canvasRef x y element
        \<and> (\<forall>j. i < j \<and> j < Suc n \<longrightarrow> \<not> hitTest canvasRef x y (els ! j))"
      then obtain i where i: "i < Suc n" "els ! i = element"
        "\<forall>j. i < j \<and> j < Suc n \<longrightarrow> \<not> hitTest canvasRef x y (els ! j)" by blast
      have "i = n"
      proof (rule ccontr)
        assume "i \<noteq> n"
        with i(1) have "i < n \<and> n < Suc n" by simp
        with i(3) True show False by blast
      qed
      with i(2) show "els ! n = element" by simp
    next
      assume "els ! n = element"
      with True show "\<exists>i<Suc n. els ! i = element \<and> hitTest canvasRef x y element
        \<and> (\<forall>j. i < j \<and> j < Suc n \<longrightarrow> \<not> hitTest canvasRef x y (els ! j))"
        by (intro exI [of _ n]) auto
    qed
    with True show ?thesis by (auto simp add: Let_def)
  next
    case False
    have "(\<exists>i<Suc n. els ! i = element \<and> hitTest canvasRef x y element
      \<and> (\<forall>j. i < j \<and> j < Suc n \<longrightarrow> \<not> hitTest canvasRef x y (els ! j))) \<longleftrightarrow>
      (\<exists>i<n. els ! i = element \<and> hitTest canvasRef x y element
      \<and> (\<forall>j. i < j \<and> j < n \<longrightarrow> \<not> hitTest canvasRef x y (els ! j)))"
      using False by (metis less_Suc_eq)
    with False Suc.IH show ?thesis by (simp add: Let_def)
  qed
qed

lemma scanFrom_find:
  "n \<le> length els \<Longrightarrow>
   scanFrom canvasRef els x y n = find (hitTest canvasRef x y) (rev (take n els))"
proof (induction n)
  case 0
  then show ?case by simp
next
  case (Suc n)
  then have "take (Suc n) els = take n els @ [els ! n]"
    by (simp add: take_Suc_conv_app_nth)
  with Suc show ?case by (simp add: Let_def)
qed

text \<open>
  C9: \<open>getElementAtPosition\<close> returns null exactly when the loop body accepts no element
  of the list, which it never does for an erased one; otherwise it returns the accepted
  element at the greatest index, the one added last among those hit.  It is the first
  accepted element of the reversed list.
\<close>

theorem getElementAtPosition_topmost:
  "(getElementAtPosition canvasRef els x y = None
      \<longleftrightarrow> (\<forall>element\<in>set els. \<not> hitTest canvasRef x y element))
   \<and> (getElementAtPosition canvasRef els x y = Some element
      \<longleftrightarrow> (\<exists>i<length els. els ! i = element \<and> hitTest canvasRef x y element
            \<and> (\<forall>j. i < j \<and> j < length els \<longrightarrow> \<not> hitTest canvasRef x y (els ! j))))
   \<and> getElementAtPosition canvasRef els x y = find (hitTest canvasRef x y) (rev els)
   \<and> (getElementAtPosition canvasRef els x y = Some element
      \<longrightarrow> \<not> truthy_bool (el_erased element))"
proof -
  have "getElementAtPosition canvasRef els x y = None
      \<longleftrightarrow> (\<forall>element\<in>set els. \<not> hitTest canvasRef x y element)"
    by (simp add: getElementAtPosition_def scanFrom_None all_set_conv_all_nth)
  moreover have s: "getElementAtPosition canvasRef els x y = Some element
      \<longleftrightarrow> (\<exists>i<length els. els ! i = element \<and> hitTest canvasRef x y element
            \<and> (\<forall>j. i < j \<and> j < length els \<longrightarrow> \<not> hitTest canvasRef x y (els ! j)))"
    unfolding getElementAtPosition_def by (rule scanFrom_Some)
  moreover have "getElementAtPosition canvasRef els x y = find (hitTest canvasRef x y) (rev els)"
    by (simp add: getElementAtPosition_def scanFrom_find)
  moreover have "getElementAtPosition canvasRef els x y = Some element
      \<longrightarrow> \<not> truthy_bool (el_erased element)"
    using s hitTest_erased by blast
  ultimately show ?thesis by blast
qed

theorem getElementAtPosition_topmost_witness:
  "getElementAtPosition None
     [sample_rectangle 1 0 0 50 50, sample_rectangle 2 10 10 50 50,
      sample_rectangle 3 200 200 5 5] 20 20
     = Some (sample_rectangle 2 10 10 50 50)
   \<and> hitTest None 20 20 (sample_rectangle 1 0 0 50 50)
   \<and> (\<exists>i<length [sample_rectangle 1 0 0 50 50, sample_rectangle 2 10 10 50 50,
                   sample_rectangle 3 200 200 5 5].
         [sample_rectangle 1 0 0 50 50, sample_rectangle 2 10 10 50 50,
          sample_rectangle 3 200 200 5 5] ! i = sample_rectangle 2 10 10 50 50
         \<and> hitTest None 20 20 (sample_rectangle 2 10 10 50 50)
         \<and> (\<forall>j. i < j \<and> j < length [sample_rectangle 1 0 0 50 50,
                   sample_rectangle 2 10 10 50 50, sample_rectangle 3 200 200 5 5]
               \<longrightarrow> \<not> hitTest None 20 20
                 ([sample_rectangle 1 0 0 50 50, sample_rectangle 2 10 10 50 50,
                   sample_rectangle 3 200 200 5 5] ! j)))"
proof -
  let ?els = "[sample_rectangle 1 0 0 50 50, sample_rectangle 2 10 10 50 50,
      sample_rectangle 3 200 200 5 5]"
  have hits: "hitTest None 20 20 (sample_rectangle 1 0 0 50 50)"
    "hitTest None 20 20 (sample_rectangle 2 10 10 50 50)"
    "\<not> hitTest None 20 20 (sample_rectangle 3 200 200 5 5)"
    by (simp_all add: hitTest_def sample_rectangle_def mouseUp_element_def initialState_def
        truthy_bool_def truthy_str_def)
  have top: "getElementAtPosition None ?els 20 20 = Some (sample_rectangle 2 10 10 50 50)"
    using hits by (simp add: getElementAtPosition_def numeral_3_eq_3 Let_def)
  from getElementAtPosition_topmost [of None ?els 20 20 "sample_rectangle 2 10 10 50 50"]
    top hits(1)
  show ?thesis by blast
qed


lemma sqrt_less_nonneg: "0 \<le> d \<Longrightarrow> sqrt a < d \<longleftrightarrow> a < d\<^sup>2"
proof -
  assume "0 \<le> d"
  then have "sqrt (d\<^sup>2) = d" by simp
  then have "sqrt a < d \<longleftrightarrow> sqrt a < sqrt (d\<^sup>2)" by simp
  also have "\<dots> \<longleftrightarrow> a < d\<^sup>2" by (rule real_sqrt_less_iff)
  finally show ?thesis .
qed

lemma hitTest_pen:
  assumes "el_type element = T_pen" "el_points element = Some points"
    and "\<not> truthy_bool (el_erased element)"
  shows "hitTest canvasRef x y element \<longleftrightarrow> near_vertex 10 (x, y) points"
  using assms by (simp add: hitTest_def near_vertex_def)

lemma near_vertex_squares:
  "near_vertex 10 (x, y) points
     \<longleftrightarrow> (\<exists>point\<in>set points. (x - pt_x point)\<^sup>2 + (y - pt_y point)\<^sup>2 < 100)"
  by (simp add: near_vertex_def list_ex_iff sqrt_less_nonneg)

lemma find_append_None:
  "find P xs = None \<Longrightarrow> find P (xs @ ys) = find P ys"
  by (induction xs) (auto split: if_splits)

lemma find_Some_holds: "find P xs = Some v \<Longrightarrow> P v"
  by (induction xs) (auto split: if_splits)

lemma getElementAtPosition_find:
  "getElementAtPosition canvasRef els x y = find (hitTest canvasRef x y) (rev els)"
  by (simp add: getElementAtPosition_def scanFrom_find)

lemma getElementAtPosition_unshadowed:
  assumes "\<forall>later\<in>set after. \<not> hitTest canvasRef x y later"
  shows "getElementAtPosition canvasRef (before @ element # after) x y = Some element
         \<longleftrightarrow> hitTest canvasRef x y element"
proof -
  from assms have "find (hitTest canvasRef x y) (rev after) = None"
    by (simp add: find_None_iff)
  then have eq: "getElementAtPosition canvasRef (before @ element # after) x y
      = find (hitTest canvasRef x y) (element # rev before)"
    by (simp add: getElementAtPosition_find find_append_None)
  show ?thesis
  proof (cases "hitTest canvasRef x y element")
    case True
    with eq show ?thesis by simp
  next
    case False
    with eq have "getElementAtPosition canvasRef (before @ element # after) x y
      = find (hitTest canvasRef x y) (rev before)" by simp
    with False find_Some_holds [of "hitTest canvasRef x y" "rev before" element]
    show ?thesis by auto
  qed
qed

text \<open>
  C4 as stated fails: the loop compares the query point with the recorded points of the
  stroke only, never with the segments between them.  For the stroke from \<open>(0, 0)\<close> to
  \<open>(100, 0)\<close> the point \<open>(50, 0)\<close> lies on the polyline, at distance 0, and is not a hit.
\<close>

theorem polyline_midpoint_counterexample:
  "el_type (sample_stroke 1 \<lparr> pt_x = 0, pt_y = 0 \<rparr> [\<lparr> pt_x = 100, pt_y = 0 \<rparr>]) = T_pen
   \<and> el_points (sample_stroke 1 \<lparr> pt_x = 0, pt_y = 0 \<rparr> [\<lparr> pt_x = 100, pt_y = 0 \<rparr>])
       = Some [\<lparr> pt_x = 0, pt_y = 0 \<rparr>, \<lparr> pt_x = 100, pt_y = 0 \<rparr>]
   \<and> \<not> truthy_bool (el_erased (sample_stroke 1 \<lparr> pt_x = 0, pt_y = 0 \<rparr> [\<lparr> pt_x = 100, pt_y = 0 \<rparr>]))
   \<and> near_polyline 10 (50, 0) [\<lparr> pt_x = 0, pt_y = 0 \<rparr>, \<lparr> pt_x = 100, pt_y = 0 \<rparr>]
   \<and> segment_dist_sq (50, 0) \<lparr> pt_x = 0, pt_y = 0 \<rparr> \<lparr> pt_x = 100, pt_y = 0 \<rparr> = 0
   \<and> getElementAtPosition (Some sample_canvas)
        [sample_stroke 1 \<lparr> pt_x = 0, pt_y = 0 \<rparr> [\<lparr> pt_x = 100, pt_y = 0 \<rparr>]] 50 0 = None"
  by (simp add: sample_stroke_def mouseUp_element_def initialState_def truthy_bool_def
      segment_dist_sq_def getElementAtPosition_def hitTest_def Let_def sqrt_less_nonneg)

text \<open>
  C4, amended: for a pen element that is not erased and has a point list, the loop body
  accepts the element if and only if the query point is at distance strictly less than 10
  from one of the points of the list; and \<open>getElementAtPosition\<close> reports that element,
  when no element later in the list is hit, under exactly this condition.
\<close>

theorem pen_hit_iff_near_vertex:
  assumes "el_type element = T_pen" "el_points element = Some points"
    and "\<not> truthy_bool (el_erased element)"
  shows "(hitTest canvasRef x y element \<longleftrightarrow> near_vertex 10 (x, y) points)
    \<and> (near_vertex 10 (x, y) points
         \<longleftrightarrow> (\<exists>point\<in>set points. (x - pt_x point)\<^sup>2 + (y - pt_y point)\<^sup>2 < 100))
    \<and> ((\<forall>later\<in>set after. \<not> hitTest canvasRef x y later) \<longrightarrow>
          (getElementAtPosition canvasRef (before @ element # after) x y = Some element
             \<longleftrightarrow> near_vertex 10 (x, y) points))"
  using hitTest_pen [OF assms] near_vertex_squares getElementAtPosition_unshadowed
  by blast

theorem pen_hit_iff_near_vertex_witness:
  "el_type (sample_stroke 1 \<lparr> pt_x = 0, pt_y = 0 \<rparr> [\<lparr> pt_x = 100, pt_y = 0 \<rparr>]) = T_pen
   \<and> el_points (sample_stroke 1 \<lparr> pt_x = 0, pt_y = 0 \<rparr> [\<lparr> pt_x = 100, pt_y = 0 \<rparr>])
       = Some [\<lparr> pt_x = 0, pt_y = 0 \<rparr>, \<lparr> pt_x = 100, pt_y = 0 \<rparr>]
   \<and> \<not> truthy_bool (el_erased (sample_stroke 1 \<lparr> pt_x = 0, pt_y = 0 \<rparr> [\<lparr> pt_x = 100, pt_y = 0 \<rparr>]))
   \<and> near_vertex 10 (95, 5) [\<lparr> pt_x = 0, pt_y = 0 \<rparr>, \<lparr> pt_x = 100, pt_y = 0 \<rparr>]
   \<and> hitTest None 95 5 (sample_stroke 1 \<lparr> pt_x = 0, pt_y = 0 \<rparr> [\<lparr> pt_x = 100, pt_y = 0 \<rparr>])
   \<and> getElementAtPosition None
        ([sample_rectangle 0 0 0 200 200]
         @ sample_stroke 1 \<lparr> pt_x = 0, pt_y = 0 \<rparr> [\<lparr> pt_x = 100, pt_y = 0 \<rparr>]
         # [sample_rectangle 2 300 300 10 10]) 95 5
       = Some (sample_stroke 1 \<lparr> pt_x = 0, pt_y = 0 \<rparr> [\<lparr> pt_x = 100, pt_y = 0 \<rparr>])"
proof -
  let ?stroke = "sample_stroke 1 \<lparr> pt_x = 0, pt_y = 0 \<rparr> [\<lparr> pt_x = 100, pt_y = 0 \<rparr>]"
  let ?points = "[\<lparr> pt_x = 0, pt_y = 0 \<rparr>, \<lparr> pt_x = 100, pt_y = 0 \<rparr>]"
  have a: "el_type ?stroke = T_pen" "el_points ?stroke = Some ?points"
    "\<not> truthy_bool (el_erased ?stroke)"
    by (simp_all add: sample_stroke_def mouseUp_element_def initialState_def truthy_bool_def)
  have n: "near_vertex 10 (95, 5) ?points"
    by (simp add: near_vertex_def sqrt_less_nonneg)
  have l: "\<forall>later\<in>set [sample_rectangle 2 300 300 10 10]. \<not> hitTest None 95 5 later"
    by (simp add: hitTest_def sample_rectangle_def mouseUp_element_def initialState_def
        truthy_bool_def truthy_str_def)
  from pen_hit_iff_near_vertex [OF a, where canvasRef = None and x = 95 and y = 5
      and after = "[sample_rectangle 2 300 300 10 10]"
      and before = "[sample_rectangle 0 0 0 200 200]"] a n l
  show ?thesis by blast
qed

section \<open>The eraser\<close>

lemma spread_erased:
  "spread el (no_updates\<lparr> u_erased := Some (Some True) \<rparr>) = el\<lparr> el_erased := Some True \<rparr>"
  by (cases el) (simp add: spread_def spread_key_def no_updates_def)

lemma drawElement_erased: "truthy_bool (el_erased element) \<Longrightarrow> drawElement selected ctx element = []"
  by (simp add: drawElement_def)

lemma eraseAtPosition_elements:
  assumes "getElementAtPosition canvasRef (elements s) x y = Some element"
  shows "elements (eraseAtPosition canvasRef x y s)
     = map (\<lambda>el. if el_id el = el_id element then el\<lparr> el_erased := Some True \<rparr> else el)
         (elements s)"
  using assms by (simp add: eraseAtPosition_def updateElement_def Let_def spread_erased)

lemma getElementAtPosition_index:
  "getElementAtPosition canvasRef els x y = Some element \<Longrightarrow> \<exists>i<length els. els ! i = element"
  using getElementAtPosition_find [of canvasRef els x y]
  by (metis find_Some_iff length_rev nth_mem in_set_conv_nth set_rev)

lemma getElementAtPosition_hit:
  "getElementAtPosition canvasRef els x y = Some element \<Longrightarrow> hitTest canvasRef x y element"
  by (simp add: getElementAtPosition_find find_Some_holds)

text \<open>
  C5 as stated fails where two elements share an identifier: the eraser marks the hit
  element through \<open>updateElement\<close>, which changes every element carrying that
  identifier.  With an image and a rectangle created in the same millisecond, erasing the
  rectangle under the pointer also flags the image, which is nowhere near.
\<close>

theorem eraser_shared_identifier_counterexample:
  "getElementAtPosition (Some sample_canvas)
       (elements (addElement (sample_rectangle 1 0 0 50 50)
          (addElement (sample_image 1) initialState))) 5 5
     = Some (sample_rectangle 1 0 0 50 50)
   \<and> elements (addElement (sample_rectangle 1 0 0 50 50)
          (addElement (sample_image 1) initialState)) ! 0
     = sample_image 1
   \<and> sample_image 1 \<noteq> sample_rectangle 1 0 0 50 50
   \<and> \<not> hitTest (Some sample_canvas) 5 5 (sample_image 1)
   \<and> elements (eraseAtPosition (Some sample_canvas) 5 5
          (addElement (sample_rectangle 1 0 0 50 50)
             (addElement (sample_image 1) initialState))) ! 0
     \<noteq> sample_image 1
   \<and> el_erased (elements (eraseAtPosition (Some sample_canvas) 5 5
          (addElement (sample_rectangle 1 0 0 50 50)
             (addElement (sample_image 1) initialState))) ! 0) = Some True"
proof -
  let ?far = "sample_image 1"
  let ?near = "sample_rectangle 1 0 0 50 50"
  let ?s = "addElement ?near (addElement ?far initialState)"
  have els: "elements ?s = [?far, ?near]"
    by (simp add: addElement_def Let_def initialState_def)
  have hits: "hitTest (Some sample_canvas) 5 5 ?near"
    "\<not> hitTest (Some sample_canvas) 5 5 ?far"
    by (simp_all add: hitTest_def sample_rectangle_def mouseUp_element_def sample_image_def
        uploadImage_element_def initialState_def truthy_bool_def truthy_str_def)
  have hit: "getElementAtPosition (Some sample_canvas) (elements ?s) 5 5 = Some ?near"
    unfolding els using hits by (simp add: getElementAtPosition_def numeral_2_eq_2 Let_def)
  have differ: "?far \<noteq> ?near"
    by (simp add: sample_rectangle_def mouseUp_element_def sample_image_def
        uploadImage_element_def)
  have same_id: "el_id ?far = el_id ?near"
    by (simp add: sample_rectangle_def mouseUp_element_def sample_image_def
        uploadImage_element_def)
  have after: "elements (eraseAtPosition (Some sample_canvas) 5 5 ?s) ! 0
      = ?far\<lparr> el_erased := Some True \<rparr>"
    unfolding eraseAtPosition_elements [OF hit] els using same_id by simp
  have "el_erased ?far = None"
    by (simp add: sample_image_def uploadImage_element_def)
  then have "?far\<lparr> el_erased := Some True \<rparr> \<noteq> ?far"
    by (metis DrawingElement.select_convs(17) DrawingElement.surjective
        DrawingElement.update_convs(17) option.distinct(1))
  with hit hits(2) els differ after show ?thesis by simp
qed

text \<open>
  C5, amended: when erasing at a position that hits an element, the list keeps its length
  and order; the hit element stays at its index with its erased flag set to true and all
  its other fields unchanged; every element with another identifier is unchanged, while
  an element sharing the identifier of the hit one is flagged as well, so that with
  pairwise distinct identifiers every other element is unchanged.  An element whose erased
  flag is set produces no drawing command and is never accepted or returned by
  hit-testing.
\<close>

theorem eraser_soft_deletes:
  assumes "getElementAtPosition canvasRef (elements s) x y = Some element"
  shows "length (elements (eraseAtPosition canvasRef x y s)) = length (elements s)
    \<and> (\<exists>i<length (elements s). elements s ! i = element
          \<and> elements (eraseAtPosition canvasRef x y s) ! i = element\<lparr> el_erased := Some True \<rparr>)
    \<and> (\<forall>i<length (elements s).
          elements (eraseAtPosition canvasRef x y s) ! i
            = (if el_id (elements s ! i) = el_id element
               then (elements s ! i)\<lparr> el_erased := Some True \<rparr> else elements s ! i))
    \<and> (distinct (map el_id (elements s)) \<longrightarrow>
          (\<forall>i<length (elements s). elements s ! i \<noteq> element \<longrightarrow>
             elements (eraseAtPosition canvasRef x y s) ! i = elements s ! i))
    \<and> drawElement selected ctx (element\<lparr> el_erased := Some True \<rparr>) = []
    \<and> \<not> hitTest canvasRef' x' y' (element\<lparr> el_erased := Some True \<rparr>)
    \<and> (truthy_bool (el_erased other) \<longrightarrow>
          drawElement selected ctx other = [] \<and> \<not> hitTest canvasRef' x' y' other
          \<and> getElementAtPosition canvasRef' els x' y' \<noteq> Some other)"
proof -
  let ?erase = "\<lambda>el. if el_id el = el_id element then el\<lparr> el_erased := Some True \<rparr> else el"
  note after = eraseAtPosition_elements [OF assms]
  have len: "length (elements (eraseAtPosition canvasRef x y s)) = length (elements s)"
    by (simp add: after)
  have each: "\<forall>i<length (elements s).
      elements (eraseAtPosition canvasRef x y s) ! i
        = (if el_id (elements s ! i) = el_id element
           then (elements s ! i)\<lparr> el_erased := Some True \<rparr> else elements s ! i)"
    by (simp add: after)
  from getElementAtPosition_index [OF assms] obtain k
    where k: "k < length (elements s)" "elements s ! k = element" by blast
  with each have hit: "\<exists>i<length (elements s). elements s ! i = element
      \<and> elements (eraseAtPosition canvasRef x y s) ! i = element\<lparr> el_erased := Some True \<rparr>"
    by auto
  have others: "\<forall>i<length (elements s). elements s ! i \<noteq> element \<longrightarrow>
      elements (eraseAtPosition canvasRef x y s) ! i = elements s ! i"
    if d: "distinct (map el_id (elements s))"
  proof (intro allI impI)
    fix i assume i: "i < length (elements s)" "elements s ! i \<noteq> element"
    with k have "i \<noteq> k" by auto
    with nth_eq_iff_index_eq [OF d, of i k] i(1) k(1)
    have "el_id (elements s ! i) \<noteq> el_id (elements s ! k)" by simp
    with k(2) have "el_id (elements s ! i) \<noteq> el_id element" by simp
    with each i(1) show "elements (eraseAtPosition canvasRef x y s) ! i = elements s ! i"
      by simp
  qed
  have flagged: "truthy_bool (el_erased (element\<lparr> el_erased := Some True \<rparr>))"
    by (simp add: truthy_bool_def)
  have skipped: "drawElement selected ctx other = [] \<and> \<not> hitTest canvasRef' x' y' other
      \<and> getElementAtPosition canvasRef' els x' y' \<noteq> Some other"
    if "truthy_bool (el_erased other)"
    using that getElementAtPosition_hit [of canvasRef' els x' y' other]
    by (auto simp add: drawElement_erased hitTest_erased)
  from len hit each others flagged skipped show ?thesis
    by (simp add: drawElement_erased hitTest_erased)
qed


theorem eraser_soft_deletes_witness:
  "getElementAtPosition None
       (elements (addElement (sample_rectangle 2 0 0 50 50)
          (addElement (sample_rectangle 1 100 100 10 10) initialState))) 5 5
     = Some (sample_rectangle 2 0 0 50 50)
   \<and> distinct (map el_id (elements (addElement (sample_rectangle 2 0 0 50 50)
          (addElement (sample_rectangle 1 100 100 10 10) initialState))))
   \<and> length (elements (eraseAtPosition None 5 5 (addElement (sample_rectangle 2 0 0 50 50)
          (addElement (sample_rectangle 1 100 100 10 10) initialState)))) = 2
   \<and> elements (eraseAtPosition None 5 5 (addElement (sample_rectangle 2 0 0 50 50)
          (addElement (sample_rectangle 1 100 100 10 10) initialState))) ! 0
       = sample_rectangle 1 100 100 10 10
   \<and> elements (eraseAtPosition None 5 5 (addElement (sample_rectangle 2 0 0 50 50)
          (addElement (sample_rectangle 1 100 100 10 10) initialState))) ! 1
       = (sample_rectangle 2 0 0 50 50)\<lparr> el_erased := Some True \<rparr>
   \<and> drawElement None (\<lambda>font line. 0)
       ((sample_rectangle 2 0 0 50 50)\<lparr> el_erased := Some True \<rparr>) = []
   \<and> \<not> hitTest None 5 5 ((sample_rectangle 2 0 0 50 50)\<lparr> el_erased := Some True \<rparr>)"
proof -
  let ?far = "sample_rectangle 1 100 100 10 10"
  let ?near = "sample_rectangle 2 0 0 50 50"
  let ?s = "addElement ?near (addElement ?far initialState)"
  have els: "elements ?s = [?far, ?near]"
    by (simp add: addElement_def Let_def initialState_def)
  have hits: "hitTest None 5 5 ?near"
    by (simp add: hitTest_def sample_rectangle_def mouseUp_element_def initialState_def
        truthy_bool_def truthy_str_def)
  have hit: "getElementAtPosition None (elements ?s) 5 5 = Some ?near"
    unfolding els using hits by (simp add: getElementAtPosition_def numeral_2_eq_2 Let_def)
  have ids: "el_id ?far \<noteq> el_id ?near"
    by (simp add: sample_rectangle_def mouseUp_element_def toString_digit)
  have differ: "?far \<noteq> ?near"
    using ids by auto
  have d: "distinct (map el_id (elements ?s))"
    unfolding els using ids by simp
  note t = eraser_soft_deletes [OF hit, where selected = None and ctx = "\<lambda>font line. 0"
      and canvasRef' = None and x' = 5 and y' = 5]
  from t have len: "length (elements (eraseAtPosition None 5 5 ?s)) = 2"
    unfolding els by simp
  from t d have "\<forall>i<length (elements ?s). elements ?s ! i \<noteq> ?near \<longrightarrow>
             elements (eraseAtPosition None 5 5 ?s) ! i = elements ?s ! i"
    by blast
  then have first: "elements (eraseAtPosition None 5 5 ?s) ! 0 = ?far"
    unfolding els using differ by simp
  from t have "\<forall>i<length (elements ?s).
          elements (eraseAtPosition None 5 5 ?s) ! i
            = (if el_id (elements ?s ! i) = el_id ?near
               then (elements ?s ! i)\<lparr> el_erased := Some True \<rparr> else elements ?s ! i)"
    by blast
  then have second: "elements (eraseAtPosition None 5 5 ?s) ! 1
      = ?near\<lparr> el_erased := Some True \<rparr>"
    unfolding els by simp
  from t have skip: "drawElement None (\<lambda>font line. 0) (?near\<lparr> el_erased := Some True \<rparr>) = []"
    "\<not> hitTest None 5 5 (?near\<lparr> el_erased := Some True \<rparr>)"
    by blast+
  from hit d len first second skip show ?thesis by blast
qed

section \<open>Rendering\<close>

text \<open>
  C7: invoked on a canvas that has a 2D context, \<open>redrawCanvas\<close> first clears the whole
  canvas, from \<open>(0, 0)\<close> over its full width and height, and then issues the drawing
  commands of every element of the live list, in list order: those of an element come
  after those of all elements before it in the list and before those of all elements
  after it.  The gesture in progress, if any, is drawn last.
\<close>

theorem redrawCanvas_clears_then_draws:
  assumes "getContext canvas = Some ctx"
  shows "redrawCanvas (Some canvas) windowEvent s c
      = ClearRect 0 0 (canvas_width canvas) (canvas_height canvas)
        # concat (map (drawElement (selectedElement s) ctx) (elements s))
        @ previewPath s c @ previewShape canvas windowEvent s c
    \<and> (elements s = before @ element # after \<longrightarrow>
         redrawCanvas (Some canvas) windowEvent s c
           = [ClearRect 0 0 (canvas_width canvas) (canvas_height canvas)]
             @ concat (map (drawElement (selectedElement s) ctx) before)
             @ drawElement (selectedElement s) ctx element
             @ concat (map (drawElement (selectedElement s) ctx) after)
             @ previewPath s c @ previewShape canvas windowEvent s c)"
  using assms by (simp add: redrawCanvas_def)

theorem redrawCanvas_clears_then_draws_witness:
  "getContext sample_canvas = Some (\<lambda>font line. fst font * real (length line) / 2)
   \<and> redrawCanvas (Some sample_canvas) None
        (addElement (sample_rectangle 2 10 10 20 20)
           (addElement (sample_rectangle 1 0 0 50 50) initialState))
        \<lparr> isDrawing = False, startPoint = None, currentPath = [], isDragging = False \<rparr>
     = [ClearRect 0 0 800 600,
        SetStrokeStyle ''#000000'', SetLineWidth 2, SetLineCap ''round'', SetLineJoin ''round'',
        StrokeRect 0 0 50 50,
        SetStrokeStyle ''#000000'', SetLineWidth 2, SetLineCap ''round'', SetLineJoin ''round'',
        StrokeRect 10 10 20 20]"
proof -
  have g: "getContext sample_canvas = Some (\<lambda>font line. fst font * real (length line) / 2)"
    by (simp add: sample_canvas_def)
  from redrawCanvas_clears_then_draws [OF g, of None
      "addElement (sample_rectangle 2 10 10 20 20)
           (addElement (sample_rectangle 1 0 0 50 50) initialState)"
      "\<lparr> isDrawing = False, startPoint = None, currentPath = [], isDragging = False \<rparr>"] g
  show ?thesis
    by (simp add: sample_canvas_def addElement_def Let_def initialState_def
        sample_rectangle_def mouseUp_element_def drawElement_def drawShape_def
        drawSelection_def fillColor_if_filled_def truthy_bool_def truthy_str_def num_or_def
        previewPath_def previewShape_def)
qed

end
